theory Spec2Isabelle
  imports Complex_Main "HOL-Library.Sublist"
begin

section \<open>Python values used by main.py\<close>

text \<open>
  An exception object: its class name and the text that \<open>str(e)\<close> gives. The values of
  this type stand for instances of Python's class \<open>Exception\<close>, the class that the handler
  of \<open>fetch_california_data\<close> names in \<open>except Exception as e\<close>.
\<close>

datatype py_exception = PyException (exc_class: string) (exc_message: string)

type_synonym 'a result = "py_exception + 'a"

text \<open>
  A Python \<open>float\<close>. Every finite binary64 number is a rational, so a finite float is
  modelled by its exact value; the negative zero, the two infinities and NaN are values of
  their own. The type is a superset of binary64 (it has every rational), so what holds of
  every \<open>Finite q\<close> holds of every finite float.
\<close>

datatype pyfloat = Finite rat | NegZero | PosInf | NegInf | NaN


fun float_value :: "pyfloat \<Rightarrow> rat" where
  "float_value (Finite q) = q"
| "float_value _ = 0"

text \<open>
  The comparison \<open>x >= y\<close> of two floats (IEEE 754): false as soon as one side is NaN,
  the order of the extended number line otherwise, the two zeros being equal.
\<close>

fun float_ge :: "pyfloat \<Rightarrow> pyfloat \<Rightarrow> bool" where
  "float_ge NaN y = False"
| "float_ge x NaN = False"
| "float_ge PosInf y = True"
| "float_ge x NegInf = True"
| "float_ge NegInf y = False"
| "float_ge x PosInf = False"
| "float_ge x y = (float_value y \<le> float_value x)"

text \<open>
  A JSON-like Python value: the report is a \<open>dict\<close> of strings, booleans and lists of
  dicts. A dict is the list of its items in insertion order. A \<open>str\<close> is the list of
  its code points; all code points of this program are below 256, so each is one
  \<open>char\<close> (the superscript two of the unit is \<open>CHR 0xB2\<close>, the degree sign
  \<open>CHR 0xB0\<close>).
\<close>

datatype pyval = PyStr string | PyBool bool | PyList "pyval list" | PyDict "(string \<times> pyval) list"

fun dict_get :: "pyval \<Rightarrow> string \<Rightarrow> pyval option" where
  "dict_get (PyDict items) k = map_of items k"
| "dict_get _ k = None"

fun dict_keys :: "pyval \<Rightarrow> string list" where
  "dict_keys (PyDict items) = map fst items"
| "dict_keys _ = []"

section \<open>Formatting\<close>

text \<open>\<open>str(n)\<close> for a non-negative integer \<open>n\<close>.\<close>

definition digit_char :: "nat \<Rightarrow> char" where
  "digit_char d = ''0123456789'' ! (d mod 10)"

fun str_nat :: "nat \<Rightarrow> string" where
  "str_nat n = (if n < 10 then [digit_char n] else str_nat (n div 10) @ [digit_char (n mod 10)])"

declare str_nat.simps [simp del]

text \<open>
  The format specification \<open>.2e\<close> applied to a float, as in \<open>f"{x:.2e}"\<close>. Python
  rounds the exact value of the float to three significant decimal digits, ties to even,
  and writes one digit, a point, two digits, \<open>e\<close>, the sign of the decimal exponent and
  at least two exponent digits; the specials are written \<open>nan\<close>, \<open>inf\<close> and \<open>-inf\<close>.

  \<open>dec_exp_ge1 v\<close> counts the divisions by ten that bring \<open>v \<ge> 1\<close> below ten and
  \<open>dec_exp_lt1 v\<close> the multiplications by ten that bring \<open>0 < v < 1\<close> up to one, so
  that \<open>dec_exponent v\<close> is the integer \<open>d\<close> with \<open>10^d \<le> v < 10^(d+1)\<close>.
\<close>

function dec_exp_ge1 :: "rat \<Rightarrow> nat" where
  "dec_exp_ge1 v = (if v < 10 then 0 else Suc (dec_exp_ge1 (v / 10)))"
  by pat_completeness auto
termination
proof (relation "measure (\<lambda>v. nat \<lfloor>v\<rfloor>)")
  show "wf (measure (\<lambda>v::rat. nat \<lfloor>v\<rfloor>))" by simp
next
  fix v :: rat
  assume big: "\<not> v < 10"
  then have "v / 10 \<le> v - 9" by simp
  then have "\<lfloor>v / 10\<rfloor> \<le> \<lfloor>v - 9\<rfloor>" by (rule floor_mono)
  also have "\<lfloor>v - 9\<rfloor> = \<lfloor>v\<rfloor> - 9" by simp
  finally have "\<lfloor>v / 10\<rfloor> < \<lfloor>v\<rfloor>" by simp
  moreover have "0 < \<lfloor>v\<rfloor>" using big by simp
  ultimately show "(v / 10, v) \<in> measure (\<lambda>v. nat \<lfloor>v\<rfloor>)" by simp
qed

function dec_exp_lt1 :: "rat \<Rightarrow> nat" where
  "dec_exp_lt1 v = (if v \<le> 0 \<or> 1 \<le> v then 0 else Suc (dec_exp_lt1 (v * 10)))"
  by pat_completeness auto
termination
proof (relation "measure (\<lambda>v. nat \<lfloor>1 / v\<rfloor>)")
  show "wf (measure (\<lambda>v::rat. nat \<lfloor>1 / v\<rfloor>))" by simp
next
  fix v :: rat
  assume "\<not> (v \<le> 0 \<or> 1 \<le> v)"
  then have v: "0 < v" "v < 1" by auto
  define x where "x = 1 / v"
  have x1: "1 < x" using v by (simp add: x_def)
  have e: "1 / (v * 10) = x / 10" by (simp add: x_def)
  have f1: "1 \<le> \<lfloor>x\<rfloor>" using x1 by simp
  then have f2: "(1::rat) \<le> of_int \<lfloor>x\<rfloor>" by linarith
  have "x < of_int \<lfloor>x\<rfloor> + 1" by linarith
  with f2 have "x < of_int \<lfloor>x\<rfloor> * 10" by linarith
  then have "x / 10 < of_int \<lfloor>x\<rfloor>" by simp
  then have "\<lfloor>x / 10\<rfloor> < \<lfloor>x\<rfloor>" by (simp add: floor_less_iff)
  moreover have "0 < \<lfloor>x\<rfloor>" using x1 by simp
  ultimately show "(v * 10, v) \<in> measure (\<lambda>v. nat \<lfloor>1 / v\<rfloor>)"
    unfolding e x_def[symmetric] in_measure by simp
qed

declare dec_exp_ge1.simps [simp del]
declare dec_exp_lt1.simps [simp del]

definition dec_exponent :: "rat \<Rightarrow> int" where
  "dec_exponent v = (if 1 \<le> v then int (dec_exp_ge1 v) else - int (dec_exp_lt1 v))"

definition pow10 :: "int \<Rightarrow> rat" where
  "pow10 d = (if 0 \<le> d then 10 ^ nat d else 1 / 10 ^ nat (- d))"

definition round_half_even :: "rat \<Rightarrow> int" where
  "round_half_even x =
     (let f = \<lfloor>x\<rfloor>; r = x - of_int f
      in if r < 1 / 2 then f else if 1 / 2 < r then f + 1 else if even f then f else f + 1)"

text \<open>
  The three significant digits (as a number from 100 to 999) and the decimal exponent
  of a positive value; rounding up to 1000 moves to the next exponent.
\<close>

definition sci_digits :: "rat \<Rightarrow> nat \<times> int" where
  "sci_digits v =
     (let d = dec_exponent v; m = nat (round_half_even (v / pow10 (d - 2)))
      in if 1000 \<le> m then (100, d + 1) else (m, d))"

definition exp_str :: "int \<Rightarrow> string" where
  "exp_str d =
     (let n = nat \<bar>d\<bar>
      in (if d < 0 then ''-'' else ''+'') @ (if n < 10 then ''0'' else []) @ str_nat n)"

definition render_sci :: "nat \<times> int \<Rightarrow> string" where
  "render_sci md = (case md of (m, d) \<Rightarrow>
     [digit_char (m div 100), CHR ''.'', digit_char (m div 10), digit_char m] @ ''e'' @ exp_str d)"

fun format_2e :: "pyfloat \<Rightarrow> string" where
  "format_2e NaN = ''nan''"
| "format_2e PosInf = ''inf''"
| "format_2e NegInf = ''-inf''"
| "format_2e NegZero = ''-'' @ render_sci (0, 0)"
| "format_2e (Finite q) =
     (if q = 0 then render_sci (0, 0)
      else (if q < 0 then ''-'' else []) @ render_sci (sci_digits \<bar>q\<bar>))"





section \<open>Constants of main.py\<close>

text \<open>
  \<open>HIGH_RISK_THRESHOLD = 1.6e-9\<close>: the literal denotes the binary64 number nearest to
  \<open>1.6e-9\<close>, which is \<open>7737125245533627 / 2^82\<close> (\<open>0x1.b7cdfd9d7bdbbp-30\<close>).
\<close>

definition HIGH_RISK_THRESHOLD :: pyfloat where
  "HIGH_RISK_THRESHOLD = Finite (7737125245533627 / 2 ^ 82)"

text \<open>
  The bounding box and the dates are written as the decimal numbers and strings of the
  source; they are only handed to the library calls.
\<close>

definition lon_min :: rat where "lon_min = - 12448 / 100"
definition lat_min :: rat where "lat_min = 3253 / 100"
definition lon_max :: rat where "lon_max = - 11413 / 100"
definition lat_max :: rat where "lat_max = 4201 / 100"

definition BBOX :: "rat \<times> rat \<times> rat \<times> rat" where
  "BBOX = (lon_min, lat_min, lon_max, lat_max)"

definition START_DATE :: string where "START_DATE = ''2025-09-01''"
definition END_DATE :: string where "END_DATE = ''2025-10-01''"

section \<open>The world outside the function\<close>

text \<open>
  What \<open>fetch_california_data\<close> reads and changes outside itself: the entries of the
  directories of the file system (a missing directory has no entry), the download
  requests issued so far (each with the granules asked for) and the lines printed.
\<close>

type_synonym granule = string

record world =
  listdir :: "string \<Rightarrow> string list"
  download_requests :: "granule list list"
  stdout :: "string list"

text \<open>
  A dataset of xarray: the arrays, dimensions and variables are left opaque (\<open>'a\<close>);
  the coordinate vectors are kept, since the function sets two of them. The values of the
  grid are multiples of \<open>1/8\<close>, exact in binary64, so rationals carry them exactly.
\<close>

record 'a dataset =
  ds_data :: 'a
  ds_coords :: "string \<Rightarrow> rat list option"

text \<open>
  The calls into \<open>earthaccess\<close>, \<open>xarray\<close> and \<open>time\<close>, whose code is not part of
  the repository, are parameters: each either raises or returns.
  \<^item> \<open>earthaccess_login strategy\<close>: \<open>Some e\<close> when the call raises \<open>e\<close>.
  \<^item> \<open>earthaccess_search_data short_name temporal bounding_box\<close>: the granules found.
  \<^item> \<open>earthaccess_download granules local_path entries\<close>: the entries of \<open>local_path\<close>
    after the call, given those before it, and the exception raised, if any.
  \<^item> \<open>xr_open_dataset path engine group\<close>, \<open>xr_combine_nested datasets concat_dim\<close>:
    the two halves of \<open>xr.open_mfdataset\<close>.
  \<^item> \<open>ds_rename_dims\<close>, \<open>ds_contains\<close> (\<open>name in ds\<close>), \<open>ds_drop_vars\<close>,
    \<open>ds_expand_dims\<close>, \<open>ds_sel\<close>: the methods of a dataset that the function calls.
  \<^item> \<open>ds_assign_coords_error ds coords\<close>: \<open>Some e\<close> when \<open>assign_coords\<close> rejects
    the coordinates (a length that differs from the dimension's).
  \<^item> \<open>ds_mean_item ds name dims\<close>: \<open>ds[name].mean(dim=dims).compute().item()\<close>.
  \<^item> \<open>time_strftime format\<close>: the current local time in that format.
\<close>

record 'a library =
  earthaccess_login :: "string \<Rightarrow> py_exception option"
  earthaccess_search_data :: "string \<Rightarrow> string \<times> string \<Rightarrow> rat \<times> rat \<times> rat \<times> rat \<Rightarrow> granule list result"
  earthaccess_download :: "granule list \<Rightarrow> string \<Rightarrow> string list \<Rightarrow> string list \<times> py_exception option"
  xr_open_dataset :: "string \<Rightarrow> string \<Rightarrow> string \<Rightarrow> 'a dataset result"
  xr_combine_nested :: "'a dataset list \<Rightarrow> string \<Rightarrow> 'a dataset result"
  ds_rename_dims :: "'a dataset \<Rightarrow> (string \<times> string) list \<Rightarrow> 'a dataset result"
  ds_contains :: "'a dataset \<Rightarrow> string \<Rightarrow> bool"
  ds_drop_vars :: "'a dataset \<Rightarrow> string \<Rightarrow> 'a dataset result"
  ds_expand_dims :: "'a dataset \<Rightarrow> string \<Rightarrow> nat \<Rightarrow> 'a dataset result"
  ds_assign_coords_error :: "'a dataset \<Rightarrow> (string \<times> rat list) list \<Rightarrow> py_exception option"
  ds_sel :: "'a dataset \<Rightarrow> (string \<times> rat \<times> rat) list \<Rightarrow> 'a dataset result"
  ds_mean_item :: "'a dataset \<Rightarrow> string \<Rightarrow> string list \<Rightarrow> pyfloat result"
  time_strftime :: "string \<Rightarrow> string"

section \<open>Control flow: exceptions and effects\<close>

text \<open>
  A statement sequence that may raise: \<open>rbind\<close> runs the rest only when the first part
  returned. \<open>'a prog\<close> is the same with the world threaded through; an exception keeps
  the world as it was when it was raised.
\<close>

definition rbind :: "'a result \<Rightarrow> ('a \<Rightarrow> 'b result) \<Rightarrow> 'b result" where
  "rbind r f = (case r of Inl e \<Rightarrow> Inl e | Inr x \<Rightarrow> f x)"

type_synonym 'a prog = "world \<Rightarrow> 'a result \<times> world"

definition ret :: "'a \<Rightarrow> 'a prog" where
  "ret x = (\<lambda>w. (Inr x, w))"

definition raise :: "py_exception \<Rightarrow> 'a prog" where
  "raise e = (\<lambda>w. (Inl e, w))"

definition lift :: "'a result \<Rightarrow> 'a prog" where
  "lift r = (\<lambda>w. (r, w))"

definition pbind :: "'a prog \<Rightarrow> ('a \<Rightarrow> 'b prog) \<Rightarrow> 'b prog" where
  "pbind m f = (\<lambda>w. case m w of (Inl e, w') \<Rightarrow> (Inl e, w') | (Inr x, w') \<Rightarrow> f x w')"

text \<open>\<open>try: body except Exception as e: handler\<close>.\<close>

definition try_except :: "'a prog \<Rightarrow> (py_exception \<Rightarrow> 'a prog) \<Rightarrow> 'a prog" where
  "try_except body handler =
     (\<lambda>w. case body w of (Inl e, w') \<Rightarrow> handler e w' | (Inr x, w') \<Rightarrow> (Inr x, w'))"

definition print :: "string \<Rightarrow> unit prog" where
  "print line = (\<lambda>w. (Inr (), w\<lparr>stdout := stdout w @ [line]\<rparr>))"

section \<open>glob\<close>

text \<open>
  \<open>fnmatch pattern name\<close>: \<open>*\<close> matches any run of characters, \<open>?\<close> any one character,
  every other character itself (the patterns of the program have no bracket
  expression), compared with case as on POSIX.
\<close>

fun fnmatch :: "string \<Rightarrow> string \<Rightarrow> bool" where
  "fnmatch [] [] = True"
| "fnmatch [] (c # cs) = False"
| "fnmatch (p # ps) [] = (p = CHR ''*'' \<and> fnmatch ps [])"
| "fnmatch (p # ps) (c # cs) =
     (if p = CHR ''*'' then fnmatch ps (c # cs) \<or> fnmatch (p # ps) cs
      else (p = CHR ''?'' \<or> p = c) \<and> fnmatch ps cs)"

text \<open>\<open>os.path.split\<close>: the part before the last slash and the part after it.\<close>

definition path_split :: "string \<Rightarrow> string \<times> string" where
  "path_split pathname =
     (rev (drop 1 (dropWhile (\<lambda>c. c \<noteq> CHR ''/'') (rev pathname))),
      rev (takeWhile (\<lambda>c. c \<noteq> CHR ''/'') (rev pathname)))"

definition is_hidden :: "string \<Rightarrow> bool" where
  "is_hidden name = (case name of [] \<Rightarrow> False | c # cs \<Rightarrow> c = CHR ''.'')"

text \<open>
  \<open>glob.glob(pathname)\<close> for a pattern whose directory part has no wildcard: the
  entries of the directory that match the last component (a name that starts with a dot
  only when the pattern does), each joined to the directory.
\<close>

definition glob :: "string \<Rightarrow> string list prog" where
  "glob pathname =
     (\<lambda>w. case path_split pathname of (dirname, pattern) \<Rightarrow>
        (Inr (map (\<lambda>name. dirname @ ''/'' @ name)
               (filter (\<lambda>name. fnmatch pattern name \<and> (is_hidden pattern \<or> \<not> is_hidden name))
                  (listdir w dirname))), w))"

text \<open>\<open>earthaccess.download(granules, local_path)\<close>: a request is issued and the directory changes.\<close>

definition download :: "'a library \<Rightarrow> granule list \<Rightarrow> string \<Rightarrow> unit prog" where
  "download lib granules local_path =
     (\<lambda>w. case earthaccess_download lib granules local_path (listdir w local_path) of
        (entries, exc) \<Rightarrow>
          ((case exc of None \<Rightarrow> Inr () | Some e \<Rightarrow> Inl e),
           w\<lparr>listdir := (listdir w)(local_path := entries),
             download_requests := download_requests w @ [granules]\<rparr>))"

section \<open>fetch_california_data\<close>

subsection \<open>Steps 1 to 4: authentication, query, download\<close>

text \<open>
  Lines 36 to 57: login, query and, when the first glob finds nothing, the download. Then
  lines 58 to 70: the files to process are those of the second glob, and an empty list
  raises \<open>FileNotFoundError\<close>.
\<close>

definition query_and_download :: "'a library \<Rightarrow> unit prog" where
  "query_and_download lib =
     pbind (lift (case earthaccess_login lib ''environment'' of Some e \<Rightarrow> Inl e | None \<Rightarrow> Inr ())) (\<lambda>_.
     pbind (lift (earthaccess_search_data lib ''OMNO2d'' (START_DATE, END_DATE) BBOX)) (\<lambda>search_results.
     pbind (print (str_nat (length search_results))) (\<lambda>_.
     pbind (glob ''tempo_data/OMI-Aura_L3.*he5'') (\<lambda>files.
     if files = [] then download lib search_results ''tempo_data'' else ret ()))))"

definition acquire :: "'a library \<Rightarrow> string list prog" where
  "acquire lib =
     pbind (query_and_download lib) (\<lambda>_.
     pbind (glob ''tempo_data/OMI-Aura_L3*.he5'') (\<lambda>files.
     pbind (print (str_nat (length files))) (\<lambda>_.
     if files = []
     then raise (PyException ''FileNotFoundError''
                   ''Earthaccess ran, but no files were downloaded for the given query.'')
     else ret files)))"

subsection \<open>Step 5: the datasets\<close>

definition preprocess_omi_l3 :: "'a library \<Rightarrow> 'a dataset \<Rightarrow> 'a dataset result" where
  "preprocess_omi_l3 lib ds =
     rbind (ds_rename_dims lib ds [(''phony_dim_0'', ''lat''), (''phony_dim_1'', ''lon'')]) (\<lambda>ds.
     rbind (if ds_contains lib ds ''Weight'' then ds_drop_vars lib ds ''Weight'' else Inr ds) (\<lambda>ds.
     ds_expand_dims lib ds ''time'' 1))"

text \<open>
  \<open>xr.open_mfdataset(files, engine, group, preprocess, combine="nested", concat_dim)\<close>
  opens every path, applies \<open>preprocess\<close> to each dataset and combines the results
  along \<open>concat_dim\<close>.
\<close>

fun open_each :: "'a library \<Rightarrow> string \<Rightarrow> string \<Rightarrow> ('a dataset \<Rightarrow> 'a dataset result) \<Rightarrow> string list
    \<Rightarrow> 'a dataset list result" where
  "open_each lib engine grp preprocess [] = Inr []"
| "open_each lib engine grp preprocess (path # paths) =
     rbind (xr_open_dataset lib path engine grp) (\<lambda>ds.
     rbind (preprocess ds) (\<lambda>ds.
     rbind (open_each lib engine grp preprocess paths) (\<lambda>rest.
     Inr (ds # rest))))"

definition open_mfdataset :: "'a library \<Rightarrow> string list \<Rightarrow> string \<Rightarrow> string
    \<Rightarrow> ('a dataset \<Rightarrow> 'a dataset result) \<Rightarrow> string \<Rightarrow> 'a dataset result" where
  "open_mfdataset lib files engine grp preprocess concat_dim =
     rbind (open_each lib engine grp preprocess files) (\<lambda>datasets.
     xr_combine_nested lib datasets concat_dim)"

text \<open>
  \<open>np.linspace(start, stop, num)\<close>: \<open>num\<close> values \<open>start + i * step\<close> with
  \<open>step = (stop - start) / (num - 1)\<close>, the last one set to \<open>stop\<close>. For the two
  calls of the program \<open>step\<close> is \<open>0.25\<close> and every value is a multiple of \<open>1/8\<close>,
  so binary64 computes them without rounding.
\<close>

definition linspace :: "rat \<Rightarrow> rat \<Rightarrow> nat \<Rightarrow> rat list" where
  "linspace start stop num =
     (let step = (stop - start) / of_nat (num - 1);
          y = map (\<lambda>i. of_nat i * step + start) [0..<num]
      in if 1 < num then y[num - 1 := stop] else y)"

definition lat :: "rat list" where
  "lat = linspace (- 89875 / 1000) (89875 / 1000) 720"

definition lon :: "rat list" where
  "lon = linspace (- 179875 / 1000) (179875 / 1000) 1440"

text \<open>
  \<open>ds.assign_coords(**coords)\<close> returns the dataset with these coordinate vectors set,
  unless it rejects them.
\<close>

definition assign_coords :: "'a library \<Rightarrow> 'a dataset \<Rightarrow> (string \<times> rat list) list \<Rightarrow> 'a dataset result" where
  "assign_coords lib ds coords =
     (case ds_assign_coords_error lib ds coords of
        Some e \<Rightarrow> Inl e
      | None \<Rightarrow> Inr (ds\<lparr>ds_coords := ds_coords ds ++ map_of coords\<rparr>))"

text \<open>The combined dataset with its spatial coordinates (lines 95 to 111).\<close>

definition ds_combined :: "'a library \<Rightarrow> string list \<Rightarrow> 'a dataset result" where
  "ds_combined lib files =
     rbind (open_mfdataset lib files ''netcdf4'' ''HDFEOS/GRIDS/ColumnAmountNO2/Data Fields''
              (preprocess_omi_l3 lib) ''time'') (\<lambda>ds_combined.
     assign_coords lib ds_combined [(''lat'', lat), (''lon'', lon)])"

text \<open>The selection of the region and the mean over it (lines 117 to 125).\<close>

definition region_mean :: "'a library \<Rightarrow> string list \<Rightarrow> pyfloat result" where
  "region_mean lib files =
     rbind (ds_combined lib files) (\<lambda>ds_combined.
     rbind (ds_sel lib ds_combined [(''lon'', lon_min, lon_max), (''lat'', lat_min, lat_max)]) (\<lambda>ca_data.
     ds_mean_item lib ca_data ''ColumnAmountNO2Trop'' [''lat'', ''lon'', ''time'']))"

text \<open>Everything up to the value of \<open>overall_mean_no2\<close> (lines 33 to 125).\<close>

definition overall_mean_no2 :: "'a library \<Rightarrow> pyfloat prog" where
  "overall_mean_no2 lib =
     pbind (acquire lib) (\<lambda>files.
     pbind (print (''Processing '' @ str_nat (length files) @ '' downloaded HE5 files...'')) (\<lambda>_.
     lift (region_mean lib files)))"

subsection \<open>Steps 6 and 7: risk assessment and the live report\<close>

text \<open>The triple \<open>(risk_level, risk_color_hex, risk_interpretation)\<close> of lines 133 to 140.\<close>

definition risk_assessment :: "pyfloat \<Rightarrow> string \<Rightarrow> string \<times> string \<times> string" where
  "risk_assessment mean formatted_no2 =
     (if float_ge mean HIGH_RISK_THRESHOLD
      then (''HIGH RISK'', ''#DC2626'',
            ''HIGH RISK: Concentration ('' @ formatted_no2 @ '') exceeds the threshold (''
              @ format_2e HIGH_RISK_THRESHOLD
              @ ''), suggesting severe air quality stress from pollution.'')
      else (''LOW/MODERATE RISK'', ''#059669'',
            ''LOW/MODERATE RISK: Concentration ('' @ formatted_no2
              @ '') is below the threshold, suggesting acceptable air quality for the period.''))"

definition real_data :: "string \<Rightarrow> string \<Rightarrow> string \<Rightarrow> string \<Rightarrow> string \<Rightarrow> pyval" where
  "real_data today formatted_no2 risk_level risk_color_hex risk_interpretation =
     PyDict
      [(''region_name'', PyStr ''Greater California Area (Live Earthdata)''),
       (''analysis_date'', PyStr (today @ '' (Live)'')),
       (''summary'', PyStr (''Live AI analysis confirms **'' @ risk_level
          @ ''** air quality risk. Based on OMI data, the average Tropospheric NO2 in the BBOX is **''
          @ formatted_no2 @ '' moles/cm'' @ [CHR 0xB2] @ ''**.'')),
       (''metrics'', PyList
         [PyDict
           [(''name'', PyStr ''Average Tropospheric NO2''),
            (''value'', PyStr formatted_no2),
            (''unit'', PyStr (''moles/cm'' @ [CHR 0xB2])),
            (''interpretation'', PyStr risk_interpretation)],
          PyDict
           [(''name'', PyStr ''Data Source''),
            (''value'', PyStr ''NASA OMI/Aura''),
            (''unit'', PyStr ''Satellite''),
            (''interpretation'', PyStr ''Analysis using actual satellite data for the specified period.'')]]),
       (''recommendations'', PyList
         [PyStr ''Implement dynamic traffic metering to reduce localized NO2 spikes.'',
          PyStr ''Promote public transport usage during peak NO2 hours.'',
          PyStr ''Review industrial emission standards in areas with peak NO2 readings.'']),
       (''is_live_data'', PyBool True),
       (''risk_color_hex'', PyStr risk_color_hex),
       (''risk_level'', PyStr risk_level)]"

text \<open>The report of the live path for a given date and mean (lines 128 to 168, the print apart).\<close>

definition live_report :: "string \<Rightarrow> pyfloat \<Rightarrow> pyval" where
  "live_report today mean =
     (let formatted_no2 = format_2e mean
      in case risk_assessment mean formatted_no2 of
           (risk_level, risk_color_hex, risk_interpretation) \<Rightarrow>
             real_data today formatted_no2 risk_level risk_color_hex risk_interpretation)"

definition live_path :: "'a library \<Rightarrow> pyval prog" where
  "live_path lib =
     pbind (overall_mean_no2 lib) (\<lambda>mean.
     pbind (print (''Successfully retrieved and calculated Average NO2: '' @ format_2e mean
                     @ '' moles/cm^2'')) (\<lambda>_.
     ret (live_report (time_strftime lib ''%Y-%m-%d'') mean)))"

subsection \<open>The fallback\<close>

definition mock_data :: pyval where
  "mock_data =
     PyDict
      [(''region_name'', PyStr ''Greater Los Angeles Area (Simulated)''),
       (''analysis_date'', PyStr ''2024-10-01 (Simulated)''),
       (''summary'', PyStr ''AI analysis highlights extreme Urban Heat Island effects and correlated pollution spikes near major transport hubs.''),
       (''metrics'', PyList
         [PyDict
           [(''name'', PyStr ''Average Tropospheric NO2''),
            (''value'', PyStr ''5.50e+15''),
            (''unit'', PyStr (''moles/cm'' @ [CHR 0xB2])),
            (''interpretation'', PyStr ''Simulated high NO2 concentration reflecting heavy urban activity and traffic.'')],
          PyDict
           [(''name'', PyStr ''Average Land Surface Temperature (LST)''),
            (''value'', PyStr (''95.2'' @ [CHR 0xB0] @ ''F'')),
            (''unit'', PyStr ''Fahrenheit''),
            (''interpretation'', PyStr ''High LST suggests severe Urban Heat Island effect, necessitating green infrastructure interventions.'')],
          PyDict
           [(''name'', PyStr ''NDVI (Vegetation Index) Score''),
            (''value'', PyStr ''0.15''),
            (''unit'', PyStr ''Index (0-1)''),
            (''interpretation'', PyStr ''Extremely low score, indicating insufficient park coverage and tree canopy for heat mitigation.'')],
          PyDict
           [(''name'', PyStr ''Precipitation Anomaly''),
            (''value'', PyStr ''-3.2 inches''),
            (''unit'', PyStr ''Inches (vs historical avg)''),
            (''interpretation'', PyStr ''Significant long-term drought conditions confirmed by NASA's GRACE-FO data, critical water management required.'')]]),
       (''recommendations'', PyList
         [PyStr ''Mandate reflective roofing materials across all new industrial development.'',
          PyStr ''Implement a 'Cool Pavement' pilot program in high-LST residential zones.'',
          PyStr ''Identify 50 acres for new urban agriculture and vertical farming projects to improve NDVI and air quality.''])]"

definition fetch_california_data :: "'a library \<Rightarrow> pyval prog" where
  "fetch_california_data lib =
     try_except (live_path lib)
       (\<lambda>e. pbind (print (''Using mock data due to error: '' @ exc_message e)) (\<lambda>_.
            ret mock_data))"

section \<open>Reading a report\<close>

text \<open>The lists under the keys \<open>metrics\<close> and \<open>recommendations\<close> of a report.\<close>

definition metrics_of :: "pyval \<Rightarrow> pyval list" where
  "metrics_of r = (case dict_get r ''metrics'' of Some (PyList ms) \<Rightarrow> ms | _ \<Rightarrow> [])"

definition recommendations_of :: "pyval \<Rightarrow> pyval list" where
  "recommendations_of r = (case dict_get r ''recommendations'' of Some (PyList rs) \<Rightarrow> rs | _ \<Rightarrow> [])"


section \<open>Concrete runs\<close>

text \<open>
  A library in which every call returns: the query finds the given granules, the
  download writes one granule file under the name the archive gives it, the datasets
  open, and the mean over the region is \<open>mean\<close>.
\<close>

definition granule_file :: string where
  "granule_file = ''OMI-Aura_L3-OMNO2d_2025m0901_v003-2025m0903t120000.he5''"

definition empty_dataset :: "unit dataset" where
  "empty_dataset = \<lparr>ds_data = (), ds_coords = Map.empty\<rparr>"

definition ok_library :: "granule list \<Rightarrow> pyfloat \<Rightarrow> unit library" where
  "ok_library found mean =
     \<lparr>earthaccess_login = (\<lambda>strategy. None),
      earthaccess_search_data = (\<lambda>short_name temporal bounding_box. Inr found),
      earthaccess_download = (\<lambda>granules local_path entries.
         (if granule_file \<in> set entries then entries else entries @ [granule_file], None)),
      xr_open_dataset = (\<lambda>path engine grp. Inr empty_dataset),
      xr_combine_nested = (\<lambda>datasets concat_dim. Inr empty_dataset),
      ds_rename_dims = (\<lambda>ds names. Inr ds),
      ds_contains = (\<lambda>ds name. False),
      ds_drop_vars = (\<lambda>ds name. Inr ds),
      ds_expand_dims = (\<lambda>ds name n. Inr ds),
      ds_assign_coords_error = (\<lambda>ds coords. None),
      ds_sel = (\<lambda>ds slices. Inr ds),
      ds_mean_item = (\<lambda>ds name dims. Inr mean),
      time_strftime = (\<lambda>fmt. ''2025-10-04'')\<rparr>"



text \<open>
  An archive with nothing for the query: no granule is found and the download writes no
  file. After the query and the download on an empty disk the world is
  \<open>after_empty_download\<close>.
\<close>

definition empty_archive :: "unit library" where
  "empty_archive =
     (ok_library [] (Finite 0))
       \<lparr>earthaccess_download := (\<lambda>granules local_path entries. (entries, None))\<rparr>"

definition after_empty_download :: world where
  "after_empty_download =
     \<lparr>listdir = (\<lambda>dir. []), download_requests = [[]], stdout = [''0'']\<rparr>"

text \<open>
  Three worlds: nothing on disk; one granule file of an earlier download in
  \<open>tempo_data\<close>; a file in \<open>tempo_data\<close> whose name has a dot after \<open>L3\<close>.
\<close>

definition fresh_world :: world where
  "fresh_world = \<lparr>listdir = (\<lambda>dir. []), download_requests = [], stdout = []\<rparr>"

definition cached_world :: world where
  "cached_world =
     \<lparr>listdir = (\<lambda>dir. if dir = ''tempo_data'' then [granule_file] else []),
      download_requests = [], stdout = []\<rparr>"

definition dotted_world :: world where
  "dotted_world =
     \<lparr>listdir = (\<lambda>dir. if dir = ''tempo_data'' then [''OMI-Aura_L3.OMNO2d_2025m0901_v003.he5''] else []),
      download_requests = [], stdout = []\<rparr>"

section \<open>The two outcomes of the function\<close>

text \<open>
  The handler and the last statements of the live path unfolded: the function returns
  the report of the live path when that returns, and \<open>mock_data\<close> when it raises.
\<close>

lemma fetch_unfold:
  "fetch_california_data lib w =
     (case live_path lib w of
        (Inl e, w') \<Rightarrow> (Inr mock_data, w'\<lparr>stdout := stdout w' @ [''Using mock data due to error: '' @ exc_message e]\<rparr>)
      | (Inr r, w') \<Rightarrow> (Inr r, w'))"
  by (simp add: fetch_california_data_def try_except_def pbind_def print_def ret_def
      split: prod.splits sum.splits)

lemma live_path_unfold:
  "live_path lib w =
     (case overall_mean_no2 lib w of
        (Inl e, w') \<Rightarrow> (Inl e, w')
      | (Inr m, w') \<Rightarrow>
          (Inr (live_report (time_strftime lib ''%Y-%m-%d'') m),
           w'\<lparr>stdout := stdout w' @
              [''Successfully retrieved and calculated Average NO2: '' @ format_2e m @ '' moles/cm^2'']\<rparr>))"
  by (simp add: live_path_def pbind_def print_def ret_def split: prod.splits sum.splits)

lemma fetch_of_raise: "fst (live_path lib w) = Inl e \<Longrightarrow> fst (fetch_california_data lib w) = Inr mock_data"
  by (cases "live_path lib w") (auto simp: fetch_unfold split: sum.splits)

lemma fetch_of_return: "fst (live_path lib w) = Inr r \<Longrightarrow> fst (fetch_california_data lib w) = Inr r"
  by (cases "live_path lib w") (auto simp: fetch_unfold split: sum.splits)

lemma live_path_of_mean:
  "fst (overall_mean_no2 lib w) = Inr m \<Longrightarrow>
   fst (live_path lib w) = Inr (live_report (time_strftime lib ''%Y-%m-%d'') m)"
  by (cases "overall_mean_no2 lib w") (auto simp: live_path_unfold split: sum.splits)

lemma live_path_of_raise: "fst (overall_mean_no2 lib w) = Inl e \<Longrightarrow> fst (live_path lib w) = Inl e"
  by (cases "overall_mean_no2 lib w") (auto simp: live_path_unfold split: sum.splits)

lemma fetch_of_mean:
  "fst (overall_mean_no2 lib w) = Inr m \<Longrightarrow>
   fst (fetch_california_data lib w) = Inr (live_report (time_strftime lib ''%Y-%m-%d'') m)"
  by (simp add: live_path_of_mean fetch_of_return)

lemmas run_defs = pbind_def rbind_def lift_def ret_def raise_def print_def glob_def download_def
  query_and_download_def acquire_def overall_mean_no2_def region_mean_def ds_combined_def
  assign_coords_def open_mfdataset_def preprocess_omi_l3_def path_split_def is_hidden_def

lemma cached_run: "fst (overall_mean_no2 (ok_library found m) cached_world) = Inr m"
  by (simp add: run_defs ok_library_def cached_world_def granule_file_def empty_dataset_def)

lemma fresh_run: "fst (overall_mean_no2 (ok_library found m) fresh_world) = Inr m"
  by (simp add: run_defs ok_library_def fresh_world_def granule_file_def empty_dataset_def)

lemma dotted_run: "fst (overall_mean_no2 (ok_library found m) dotted_world) = Inr m"
  by (simp add: run_defs ok_library_def dotted_world_def granule_file_def empty_dataset_def)

section \<open>Risk classification\<close>





section \<open>The live report\<close>

lemma live_report_eq:
  "live_report today mean =
     real_data today (format_2e mean)
       (fst (risk_assessment mean (format_2e mean)))
       (fst (snd (risk_assessment mean (format_2e mean))))
       (snd (snd (risk_assessment mean (format_2e mean))))"
  by (simp add: live_report_def Let_def split: prod.splits)

lemma risk_color_of_level:
  "fst (snd (risk_assessment mean f)) =
     (if fst (risk_assessment mean f) = ''HIGH RISK'' then ''#DC2626'' else ''#059669'')"
  by (simp add: risk_assessment_def)

lemma real_data_flags:
  "dict_get (real_data today f level color interp) ''is_live_data'' = Some (PyBool True)"
  "dict_get (real_data today f level color interp) ''risk_level'' = Some (PyStr level)"
  "dict_get (real_data today f level color interp) ''risk_color_hex'' = Some (PyStr color)"
  "dict_get (real_data today f level color interp) ''region_name'' =
     Some (PyStr ''Greater California Area (Live Earthdata)'')"
  by (simp_all add: real_data_def)

lemma real_data_summary:
  "\<exists>summary. dict_get (real_data today f level color interp) ''summary'' = Some (PyStr summary) \<and>
     sublist level summary \<and> sublist f summary"
proof -
  define a where "a = ''Live AI analysis confirms **''"
  define b where "b = ''** air quality risk. Based on OMI data, the average Tropospheric NO2 in the BBOX is **''"
  define c where "c = '' moles/cm'' @ [CHR 0xB2] @ ''**.''"
  have "dict_get (real_data today f level color interp) ''summary'' = Some (PyStr (a @ level @ b @ f @ c))"
    by (simp add: real_data_def a_def b_def c_def)
  moreover have "sublist level (a @ level @ b @ f @ c)"
    unfolding sublist_def by blast
  moreover have "a @ level @ b @ f @ c = (a @ level @ b) @ f @ c" by simp
  then have "sublist f (a @ level @ b @ f @ c)"
    unfolding sublist_def by blast
  ultimately show ?thesis by blast
qed

lemma real_data_lists:
  "metrics_of (real_data today f level color interp) =
     [PyDict [(''name'', PyStr ''Average Tropospheric NO2''),
              (''value'', PyStr f),
              (''unit'', PyStr (''moles/cm'' @ [CHR 0xB2])),
              (''interpretation'', PyStr interp)],
      PyDict [(''name'', PyStr ''Data Source''),
              (''value'', PyStr ''NASA OMI/Aura''),
              (''unit'', PyStr ''Satellite''),
              (''interpretation'', PyStr ''Analysis using actual satellite data for the specified period.'')]]"
  "recommendations_of (real_data today f level color interp) =
     [PyStr ''Implement dynamic traffic metering to reduce localized NO2 spikes.'',
      PyStr ''Promote public transport usage during peak NO2 hours.'',
      PyStr ''Review industrial emission standards in areas with peak NO2 readings.'']"
  by (simp_all add: real_data_def metrics_of_def recommendations_of_def)

lemma mock_data_keys:
  "dict_keys mock_data = [''region_name'', ''analysis_date'', ''summary'', ''metrics'', ''recommendations'']"
  by (simp add: mock_data_def)

text \<open>
  Claim C8. Every live report has \<open>is_live_data = True\<close>, a summary in which the risk
  level and the formatted mean both occur, the NO2 metric followed by the fixed
  \<open>Data Source\<close> metric, the three fixed recommendations and a colour fixed by the risk
  level (\<open>#DC2626\<close> for \<open>HIGH RISK\<close>, \<open>#059669\<close> otherwise); \<open>mock_data\<close> has none
  of the keys \<open>is_live_data\<close>, \<open>risk_level\<close>, \<open>risk_color_hex\<close> (or \<open>risk_color\<close>).
\<close>

theorem live_report_fields:
  assumes "fst (overall_mean_no2 lib w) = Inr mean"
  shows "\<exists>r level summary interpretation.
           fst (fetch_california_data lib w) = Inr r \<and>
           dict_get r ''is_live_data'' = Some (PyBool True) \<and>
           dict_get r ''risk_level'' = Some (PyStr level) \<and>
           dict_get r ''summary'' = Some (PyStr summary) \<and>
           sublist level summary \<and> sublist (format_2e mean) summary \<and>
           metrics_of r =
             [PyDict [(''name'', PyStr ''Average Tropospheric NO2''),
                      (''value'', PyStr (format_2e mean)),
                      (''unit'', PyStr (''moles/cm'' @ [CHR 0xB2])),
                      (''interpretation'', PyStr interpretation)],
              PyDict [(''name'', PyStr ''Data Source''),
                      (''value'', PyStr ''NASA OMI/Aura''),
                      (''unit'', PyStr ''Satellite''),
                      (''interpretation'', PyStr ''Analysis using actual satellite data for the specified period.'')]] \<and>
           recommendations_of r =
             [PyStr ''Implement dynamic traffic metering to reduce localized NO2 spikes.'',
              PyStr ''Promote public transport usage during peak NO2 hours.'',
              PyStr ''Review industrial emission standards in areas with peak NO2 readings.''] \<and>
           dict_get r ''risk_color_hex'' =
             Some (PyStr (if level = ''HIGH RISK'' then ''#DC2626'' else ''#059669'')) \<and>
           dict_get mock_data ''is_live_data'' = None \<and>
           dict_get mock_data ''risk_level'' = None \<and>
           dict_get mock_data ''risk_color_hex'' = None \<and>
           dict_get mock_data ''risk_color'' = None"
proof -
  define today where "today = time_strftime lib ''%Y-%m-%d''"
  define f where "f = format_2e mean"
  define level where "level = fst (risk_assessment mean f)"
  define color where "color = fst (snd (risk_assessment mean f))"
  define interp where "interp = snd (snd (risk_assessment mean f))"
  define r where "r = real_data today f level color interp"
  have ret: "fst (fetch_california_data lib w) = Inr r"
    using assms by (simp add: fetch_of_mean live_report_eq r_def today_def f_def level_def color_def interp_def)
  obtain summary where s: "dict_get r ''summary'' = Some (PyStr summary)"
      "sublist level summary" "sublist f summary"
    unfolding r_def using real_data_summary by blast
  have col: "color = (if level = ''HIGH RISK'' then ''#DC2626'' else ''#059669'')"
    unfolding color_def level_def by (rule risk_color_of_level)
  have mock: "dict_get mock_data ''is_live_data'' = None" "dict_get mock_data ''risk_level'' = None"
    "dict_get mock_data ''risk_color_hex'' = None" "dict_get mock_data ''risk_color'' = None"
    by (simp_all add: mock_data_def)
  show ?thesis
    using ret s col mock real_data_flags [of today f level color interp]
      real_data_lists [of today f level color interp]
    unfolding r_def [symmetric] f_def [symmetric] by blast
qed

theorem live_report_fields_witness:
  "fst (overall_mean_no2 (ok_library [''G1''] (Finite 0)) fresh_world) = Inr (Finite 0) \<and>
   (\<exists>r level summary.
      fst (fetch_california_data (ok_library [''G1''] (Finite 0)) fresh_world) = Inr r \<and>
      dict_get r ''is_live_data'' = Some (PyBool True) \<and>
      dict_get r ''risk_level'' = Some (PyStr level) \<and>
      dict_get r ''summary'' = Some (PyStr summary) \<and>
      sublist level summary \<and> sublist (format_2e (Finite 0)) summary \<and>
      dict_get r ''risk_color_hex'' = Some (PyStr (if level = ''HIGH RISK'' then ''#DC2626'' else ''#059669'')))"
proof -
  have run: "fst (overall_mean_no2 (ok_library [''G1''] (Finite 0)) fresh_world) = Inr (Finite 0)"
    by (rule fresh_run)
  from live_report_fields [OF run] run show ?thesis by blast
qed

section \<open>A mean that is NaN\<close>

lemma nan_report:
  "live_report today NaN =
     real_data today ''nan'' ''LOW/MODERATE RISK'' ''#059669''
       ''LOW/MODERATE RISK: Concentration (nan) is below the threshold, suggesting acceptable air quality for the period.''"
  by (simp add: live_report_def risk_assessment_def Let_def)

text \<open>
  Claim C10. When every step succeeds and the mean is NaN, the function returns a live
  report: \<open>is_live_data\<close> is true, \<open>risk_level\<close> is \<open>LOW/MODERATE RISK\<close> (the
  comparison of NaN with the threshold is false, and nothing tests for NaN before it) and
  the value of the NO2 metric is \<open>nan\<close>, the NaN as \<open>.2e\<close> formats it.
\<close>

theorem nan_mean_live_report:
  assumes "fst (overall_mean_no2 lib w) = Inr NaN"
  shows "\<exists>r. fst (fetch_california_data lib w) = Inr r \<and>
           dict_get r ''is_live_data'' = Some (PyBool True) \<and>
           dict_get r ''risk_level'' = Some (PyStr ''LOW/MODERATE RISK'') \<and>
           metrics_of r =
             [PyDict [(''name'', PyStr ''Average Tropospheric NO2''),
                      (''value'', PyStr ''nan''),
                      (''unit'', PyStr (''moles/cm'' @ [CHR 0xB2])),
                      (''interpretation'', PyStr ''LOW/MODERATE RISK: Concentration (nan) is below the threshold, suggesting acceptable air quality for the period.'')],
              PyDict [(''name'', PyStr ''Data Source''),
                      (''value'', PyStr ''NASA OMI/Aura''),
                      (''unit'', PyStr ''Satellite''),
                      (''interpretation'', PyStr ''Analysis using actual satellite data for the specified period.'')]] \<and>
           float_ge NaN HIGH_RISK_THRESHOLD = False \<and> format_2e NaN = ''nan''"
  using assms
  by (simp add: fetch_of_mean nan_report real_data_flags real_data_lists)

theorem nan_mean_live_report_witness:
  "fst (overall_mean_no2 (ok_library [''G1''] NaN) cached_world) = Inr NaN \<and>
   (\<exists>r. fst (fetch_california_data (ok_library [''G1''] NaN) cached_world) = Inr r \<and>
        dict_get r ''is_live_data'' = Some (PyBool True) \<and>
        dict_get r ''risk_level'' = Some (PyStr ''LOW/MODERATE RISK''))"
proof -
  have run: "fst (overall_mean_no2 (ok_library [''G1''] NaN) cached_world) = Inr NaN"
    by (rule cached_run)
  from nan_mean_live_report [OF run] run show ?thesis by blast
qed

lemma live_report_not_mock: "live_report today mean \<noteq> mock_data"
proof
  assume "live_report today mean = mock_data"
  then have "dict_get (live_report today mean) ''region_name'' = dict_get mock_data ''region_name''"
    by simp
  then show False
    by (simp add: live_report_eq real_data_flags mock_data_def)
qed




section \<open>Totality\<close>




section \<open>The fallback\<close>

text \<open>
  Each kind of failure makes the live path raise: a failed login (\<open>login_raises\<close>
  above), a failed query, a failed acquisition, a granule that cannot be opened, a failed
  reduction.
\<close>

lemma search_raises:
  "earthaccess_login lib ''environment'' = None \<Longrightarrow>
   earthaccess_search_data lib ''OMNO2d'' (START_DATE, END_DATE) BBOX = Inl e \<Longrightarrow>
   fst (live_path lib w) = Inl e"
  by (simp add: live_path_unfold overall_mean_no2_def acquire_def query_and_download_def pbind_def lift_def)

lemma acquire_raises: "fst (acquire lib w) = Inl e \<Longrightarrow> fst (live_path lib w) = Inl e"
  by (cases "acquire lib w") (simp add: live_path_unfold overall_mean_no2_def pbind_def)



lemma mean_raises:
  "ds_combined lib files = Inr ds \<Longrightarrow>
   ds_sel lib ds [(''lon'', lon_min, lon_max), (''lat'', lat_min, lat_max)] = Inr ca_data \<Longrightarrow>
   ds_mean_item lib ca_data ''ColumnAmountNO2Trop'' [''lat'', ''lon'', ''time''] = Inl e \<Longrightarrow>
   region_mean lib files = Inl e"
  by (simp add: region_mean_def rbind_def)





section \<open>Acquisition\<close>

lemma acquire_unfold:
  "acquire lib w =
     (case query_and_download lib w of
        (Inl e, w') \<Rightarrow> (Inl e, w')
      | (Inr u, w') \<Rightarrow>
          (case glob ''tempo_data/OMI-Aura_L3*.he5'' w' of
             (Inl e, w'') \<Rightarrow> (Inl e, w'')
           | (Inr files, w'') \<Rightarrow>
               (if files = []
                then Inl (PyException ''FileNotFoundError''
                            ''Earthaccess ran, but no files were downloaded for the given query.'')
                else Inr files,
                w''\<lparr>stdout := stdout w'' @ [str_nat (length files)]\<rparr>)))"
  by (simp add: acquire_def pbind_def print_def raise_def ret_def split: prod.splits sum.splits)

text \<open>
  Claim C6 says that a query with zero results makes the acquisition raise. It does
  not: the function never tests \<open>search_results\<close>. In the run below the query finds
  nothing, a file in \<open>tempo_data\<close> matches both globs, the download is skipped, and the
  function returns a live report.
\<close>

theorem empty_query_counterexample:
  "earthaccess_search_data (ok_library [] (Finite 0)) ''OMNO2d'' (START_DATE, END_DATE) BBOX = Inr [] \<and>
   fst (acquire (ok_library [] (Finite 0)) dotted_world) =
     Inr [''tempo_data/OMI-Aura_L3.OMNO2d_2025m0901_v003.he5''] \<and>
   fst (fetch_california_data (ok_library [] (Finite 0)) dotted_world) =
     Inr (live_report ''2025-10-04'' (Finite 0)) \<and>
   fst (fetch_california_data (ok_library [] (Finite 0)) dotted_world) \<noteq> Inr mock_data"
proof -
  have q: "earthaccess_search_data (ok_library [] (Finite 0)) ''OMNO2d'' (START_DATE, END_DATE) BBOX = Inr []"
    by (simp add: ok_library_def)
  have a: "fst (acquire (ok_library [] (Finite 0)) dotted_world) =
     Inr [''tempo_data/OMI-Aura_L3.OMNO2d_2025m0901_v003.he5'']"
    by (simp add: run_defs ok_library_def dotted_world_def)
  have t: "time_strftime (ok_library [] (Finite 0)) ''%Y-%m-%d'' = ''2025-10-04''"
    by (simp add: ok_library_def)
  have f: "fst (fetch_california_data (ok_library [] (Finite 0)) dotted_world) =
     Inr (live_report ''2025-10-04'' (Finite 0))"
    using fetch_of_mean [OF dotted_run [of "[]" "Finite 0"]] t by simp
  from q a f live_report_not_mock show ?thesis by simp
qed

text \<open>
  Claim C6, amended. If, after the download step (run or skipped), no entry of
  \<open>tempo_data\<close> matches the glob \<open>OMI-Aura_L3*.he5\<close>, the acquisition raises
  \<open>FileNotFoundError\<close>, which the handler turns into \<open>mock_data\<close>.
\<close>

theorem no_matching_file_raises:
  assumes "query_and_download lib w = (Inr (), w')"
      and "fst (glob ''tempo_data/OMI-Aura_L3*.he5'' w') = Inr []"
  shows "fst (acquire lib w) =
           Inl (PyException ''FileNotFoundError''
                  ''Earthaccess ran, but no files were downloaded for the given query.'') \<and>
         fst (fetch_california_data lib w) = Inr mock_data"
proof -
  have a: "fst (acquire lib w) =
           Inl (PyException ''FileNotFoundError''
                  ''Earthaccess ran, but no files were downloaded for the given query.'')"
    using assms by (cases "glob ''tempo_data/OMI-Aura_L3*.he5'' w'") (simp add: acquire_unfold)
  from a have "fst (live_path lib w) = Inl (PyException ''FileNotFoundError''
                  ''Earthaccess ran, but no files were downloaded for the given query.'')"
    by (rule acquire_raises)
  then have "fst (fetch_california_data lib w) = Inr mock_data" by (rule fetch_of_raise)
  with a show ?thesis by simp
qed

lemma empty_archive_run:
  "query_and_download empty_archive fresh_world = (Inr (), after_empty_download)"
  by (simp add: run_defs empty_archive_def ok_library_def fresh_world_def after_empty_download_def
      str_nat.simps digit_char_def fun_eq_iff)

theorem no_matching_file_raises_witness:
  "query_and_download empty_archive fresh_world = (Inr (), after_empty_download) \<and>
   fst (glob ''tempo_data/OMI-Aura_L3*.he5'' after_empty_download) = Inr [] \<and>
   fst (acquire empty_archive fresh_world) =
     Inl (PyException ''FileNotFoundError''
            ''Earthaccess ran, but no files were downloaded for the given query.'') \<and>
   fst (fetch_california_data empty_archive fresh_world) = Inr mock_data"
proof -
  have g: "fst (glob ''tempo_data/OMI-Aura_L3*.he5'' after_empty_download) = Inr []"
    by (simp add: glob_def path_split_def after_empty_download_def)
  from no_matching_file_raises [OF empty_archive_run g] empty_archive_run g show ?thesis by blast
qed

text \<open>
  The download is skipped exactly when the first glob, \<open>OMI-Aura_L3.*he5\<close>, finds a
  file: a name with a dot right after \<open>L3\<close>.
\<close>

lemma download_skipped:
  assumes "fst (glob ''tempo_data/OMI-Aura_L3.*he5'' w) = Inr (f # fs)"
  shows "download_requests (snd (query_and_download lib w)) = download_requests w"
proof -
  have g: "\<And>s. fst (glob ''tempo_data/OMI-Aura_L3.*he5'' (w\<lparr>stdout := s\<rparr>)) = Inr (f # fs)"
    using assms by (simp add: glob_def split: prod.splits)
  have s: "\<And>s. snd (glob ''tempo_data/OMI-Aura_L3.*he5'' (w\<lparr>stdout := s\<rparr>)) = w\<lparr>stdout := s\<rparr>"
    by (simp add: glob_def split: prod.splits)
  show ?thesis
  proof (cases "earthaccess_login lib ''environment''")
    case (Some e)
    then show ?thesis by (simp add: query_and_download_def pbind_def lift_def)
  next
    case None
    show ?thesis
    proof (cases "earthaccess_search_data lib ''OMNO2d'' (START_DATE, END_DATE) BBOX")
      case (Inl e)
      with None show ?thesis by (simp add: query_and_download_def pbind_def lift_def)
    next
      case (Inr sr)
      obtain r w2 where gl: "glob ''tempo_data/OMI-Aura_L3.*he5'' (w\<lparr>stdout := stdout w @ [str_nat (length sr)]\<rparr>) = (r, w2)"
        by (cases "glob ''tempo_data/OMI-Aura_L3.*he5'' (w\<lparr>stdout := stdout w @ [str_nat (length sr)]\<rparr>)")
      with g [of "stdout w @ [str_nat (length sr)]"] s [of "stdout w @ [str_nat (length sr)]"]
      have "r = Inr (f # fs)" "w2 = w\<lparr>stdout := stdout w @ [str_nat (length sr)]\<rparr>" by simp_all
      with None Inr gl show ?thesis
        by (simp add: query_and_download_def pbind_def lift_def print_def ret_def)
    qed
  qed
qed

text \<open>
  Claim C4 (idempotent acquisition). A granule file of the archive,
  \<open>OMI-Aura_L3-OMNO2d_...he5\<close>, matches the glob that lists the files to process but
  not the glob that guards the download, whose pattern has \<open>.*\<close> where the other has
  \<open>*.\<close>. With that file already in \<open>tempo_data\<close> the function issues a download
  request, and a second call on the directory left by the first issues another one.
\<close>

theorem cached_granule_downloaded_again:
  "listdir cached_world ''tempo_data'' = [granule_file] \<and>
   fnmatch ''OMI-Aura_L3*.he5'' granule_file \<and>
   \<not> fnmatch ''OMI-Aura_L3.*he5'' granule_file \<and>
   download_requests cached_world = [] \<and>
   download_requests (snd (fetch_california_data (ok_library [''G1''] (Finite 0)) cached_world)) = [[''G1'']] \<and>
   listdir (snd (fetch_california_data (ok_library [''G1''] (Finite 0)) cached_world)) ''tempo_data'' = [granule_file] \<and>
   download_requests (snd (fetch_california_data (ok_library [''G1''] (Finite 0))
      (snd (fetch_california_data (ok_library [''G1''] (Finite 0)) cached_world)))) = [[''G1''], [''G1'']]"
  by (simp add: fetch_unfold live_path_unfold run_defs ok_library_def cached_world_def granule_file_def
      empty_dataset_def)

section \<open>The grid\<close>

lemma linspace_quarter:
  assumes "1 < num" and "stop = start + of_nat (num - 1) / 4"
  shows "linspace start stop num = map (\<lambda>i. start + of_nat i / 4) [0..<num]"
proof -
  have n: "of_nat (num - 1) \<noteq> (0::rat)" using assms(1) by simp
  have step: "(stop - start) / of_nat (num - 1) = 1 / 4"
    using n by (simp add: assms(2))
  have y: "map (\<lambda>i. of_nat i * ((stop - start) / of_nat (num - 1)) + start) [0..<num] =
           map (\<lambda>i. start + of_nat i / 4) [0..<num]"
    unfolding step by (simp add: add.commute)
  have upd: "(map (\<lambda>i. start + of_nat i / 4) [0..<num]) [num - 1 := stop] =
        map (\<lambda>i. start + of_nat i / 4) [0..<num]"
    using assms by (simp add: list_update_same_conv)
  show ?thesis
    unfolding linspace_def Let_def y by (simp only: assms(1) if_True upd)
qed

lemma lat_grid: "lat = map (\<lambda>i. - 719 / 8 + of_nat i / 4) [0..<720]"
proof -
  have "linspace (- 719 / 8) (719 / 8) 720 = map (\<lambda>i. - 719 / 8 + of_nat i / 4) [0..<720]"
    by (rule linspace_quarter) simp_all
  then show ?thesis by (simp add: lat_def)
qed

lemma lon_grid: "lon = map (\<lambda>i. - 1439 / 8 + of_nat i / 4) [0..<1440]"
proof -
  have "linspace (- 1439 / 8) (1439 / 8) 1440 = map (\<lambda>i. - 1439 / 8 + of_nat i / 4) [0..<1440]"
    by (rule linspace_quarter) simp_all
  then show ?thesis by (simp add: lon_def)
qed

lemma grid_ends:
  "0 < n \<Longrightarrow> hd (map (\<lambda>i. a + of_nat i / 4) [0..<n]) = (a::rat)"
  "0 < n \<Longrightarrow> last (map (\<lambda>i. a + of_nat i / 4) [0..<n]) = a + of_nat (n - 1) / 4"
  by (simp_all add: hd_map last_map)

lemma assign_coords_sets:
  "assign_coords lib ds [(''lat'', a), (''lon'', b)] = Inr ds' \<Longrightarrow>
   ds_coords ds' ''lat'' = Some a \<and> ds_coords ds' ''lon'' = Some b"
  by (auto simp: assign_coords_def split: option.splits)

lemma ds_combined_coords:
  assumes "ds_combined lib files = Inr ds"
  shows "ds_coords ds ''lat'' = Some lat \<and> ds_coords ds ''lon'' = Some lon"
proof -
  from assms obtain ds0 where "assign_coords lib ds0 [(''lat'', lat), (''lon'', lon)] = Inr ds"
    by (auto simp: ds_combined_def rbind_def split: sum.splits)
  then show ?thesis by (rule assign_coords_sets)
qed

text \<open>
  Claim C9. The coordinates of the combined dataset are the fixed vectors \<open>lat\<close> and
  \<open>lon\<close>, whatever the files hold: 720 latitudes from \<open>-89.875\<close> to \<open>89.875\<close> and
  1440 longitudes from \<open>-179.875\<close> to \<open>179.875\<close>, each one \<open>0.25\<close> after the
  previous one.
\<close>

theorem grid_coordinates:
  assumes "ds_combined lib files = Inr ds"
  shows "ds_coords ds ''lat'' = Some lat \<and> ds_coords ds ''lon'' = Some lon \<and>
         lat = map (\<lambda>i. - 89875 / 1000 + of_nat i * (25 / 100)) [0..<720] \<and>
         length lat = 720 \<and> hd lat = - 89875 / 1000 \<and> last lat = 89875 / 1000 \<and>
         lon = map (\<lambda>i. - 179875 / 1000 + of_nat i * (25 / 100)) [0..<1440] \<and>
         length lon = 1440 \<and> hd lon = - 179875 / 1000 \<and> last lon = 179875 / 1000"
proof -
  have "hd lat = - 89875 / 1000" "last lat = 89875 / 1000"
    using grid_ends [of 720 "- 719 / 8"] by (simp_all add: lat_grid)
  moreover have "hd lon = - 179875 / 1000" "last lon = 179875 / 1000"
    using grid_ends [of 1440 "- 1439 / 8"] by (simp_all add: lon_grid)
  moreover have "lat = map (\<lambda>i. - 89875 / 1000 + of_nat i * (25 / 100)) [0..<720]"
    "lon = map (\<lambda>i. - 179875 / 1000 + of_nat i * (25 / 100)) [0..<1440]"
    by (simp_all add: lat_grid lon_grid)
  moreover have "length lat = 720" "length lon = 1440"
    by (simp_all add: lat_grid lon_grid)
  ultimately show ?thesis using ds_combined_coords [OF assms] by blast
qed

lemma ok_ds_combined:
  "ds_combined (ok_library [''G1''] (Finite 0)) [''tempo_data/'' @ granule_file] =
     Inr (empty_dataset\<lparr>ds_coords := ds_coords empty_dataset ++ map_of [(''lat'', lat), (''lon'', lon)]\<rparr>)"
  by (simp add: ds_combined_def open_mfdataset_def preprocess_omi_l3_def assign_coords_def rbind_def
      ok_library_def)

theorem grid_coordinates_witness:
  "ds_combined (ok_library [''G1''] (Finite 0)) [''tempo_data/'' @ granule_file] =
     Inr (empty_dataset\<lparr>ds_coords := ds_coords empty_dataset ++ map_of [(''lat'', lat), (''lon'', lon)]\<rparr>) \<and>
   ds_coords (empty_dataset\<lparr>ds_coords := ds_coords empty_dataset ++ map_of [(''lat'', lat), (''lon'', lon)]\<rparr>)
     ''lat'' = Some lat \<and>
   length lat = 720 \<and> length lon = 1440"
  using grid_coordinates [OF ok_ds_combined] ok_ds_combined by blast

section \<open>The format of the mean\<close>

lemma floor_rat_numeral [simp]: "\<lfloor>(numeral a / numeral b :: rat)\<rfloor> = numeral a div numeral b"
  using floor_divide_of_int_eq [of "numeral a" "numeral b", where ?'a = rat] by simp













text \<open>
  The digits are the correctly rounded ones: for a positive value \<open>v\<close> the three
  digits \<open>m\<close> and the exponent \<open>d\<close> satisfy \<open>100 \<le> m \<le> 999\<close> and \<open>m * 10^(d-2)\<close>
  is within half a unit of the last digit of \<open>v\<close>.
\<close>

lemma dec_exp_ge1_bounds:
  "1 \<le> v \<Longrightarrow> 10 ^ dec_exp_ge1 v \<le> v \<and> v < 10 ^ Suc (dec_exp_ge1 v)"
proof (induction v rule: dec_exp_ge1.induct)
  case (1 v)
  show ?case
  proof (cases "v < 10")
    case True
    with "1.prems" show ?thesis by (subst (1 2) dec_exp_ge1.simps) simp
  next
    case False
    then have "1 \<le> v / 10" by simp
    with "1.IH" False have "10 ^ dec_exp_ge1 (v / 10) \<le> v / 10 \<and> v / 10 < 10 ^ Suc (dec_exp_ge1 (v / 10))"
      by simp
    with False show ?thesis by (subst (1 2) dec_exp_ge1.simps) simp
  qed
qed

lemma dec_exp_lt1_bounds:
  "0 < v \<Longrightarrow> v < 1 \<Longrightarrow>
   1 \<le> v * 10 ^ dec_exp_lt1 v \<and> v * 10 ^ dec_exp_lt1 v < 10 \<and> 0 < dec_exp_lt1 v"
proof (induction v rule: dec_exp_lt1.induct)
  case (1 v)
  show ?case
  proof (cases "1 \<le> v * 10")
    case True
    then have "dec_exp_lt1 (v * 10) = 0" by (subst dec_exp_lt1.simps) simp
    with "1.prems" have "dec_exp_lt1 v = Suc 0" by (subst dec_exp_lt1.simps) simp
    with True "1.prems" show ?thesis by simp
  next
    case False
    with "1.IH" "1.prems"
    have ih: "1 \<le> v * 10 * 10 ^ dec_exp_lt1 (v * 10) \<and> v * 10 * 10 ^ dec_exp_lt1 (v * 10) < 10"
      by simp
    from "1.prems" have "dec_exp_lt1 v = Suc (dec_exp_lt1 (v * 10))" by (subst dec_exp_lt1.simps) simp
    with ih show ?thesis by (simp add: mult.assoc)
  qed
qed

lemma pow10_powi: "pow10 d = 10 powi d"
  by (simp add: pow10_def power_int_def power_divide)

lemma dec_exponent_bounds:
  assumes "0 < v"
  shows "pow10 (dec_exponent v) \<le> v \<and> v < pow10 (dec_exponent v + 1)"
proof (cases "1 \<le> v")
  case True
  with dec_exp_ge1_bounds [OF True] show ?thesis
    by (simp add: dec_exponent_def pow10_def nat_add_distrib)
next
  case False
  then have lt: "v < 1" by simp
  define k where "k = dec_exp_lt1 v"
  from dec_exp_lt1_bounds [OF assms lt]
  have b: "1 \<le> v * 10 ^ k" "v * 10 ^ k < 10" "0 < k" by (simp_all add: k_def)
  have d: "dec_exponent v = - int k" using False by (simp add: dec_exponent_def k_def)
  have lo: "pow10 (- int k) \<le> v"
    using b(1) b(3) by (simp add: pow10_def field_simps)
  obtain j where j: "k = Suc j" using b(3) by (cases k) auto
  have "v * 10 ^ j < 1" using b(2) by (simp add: j)
  then have hi: "v < pow10 (- int k + 1)"
    using lt by (auto simp: pow10_def j field_simps)
  from lo hi d show ?thesis by simp
qed

lemma round_half_even_error: "\<bar>x - of_int (round_half_even x)\<bar> \<le> 1 / 2"
proof -
  have "of_int \<lfloor>x\<rfloor> \<le> x" "x < of_int \<lfloor>x\<rfloor> + 1" by linarith+
  then show ?thesis
    by (auto simp: round_half_even_def Let_def abs_le_iff)
qed

lemma round_half_even_mono:
  "of_int n \<le> x \<Longrightarrow> n \<le> round_half_even x"
  "x \<le> of_int n \<Longrightarrow> round_half_even x \<le> n"
proof -
  assume "of_int n \<le> x"
  then have "n \<le> \<lfloor>x\<rfloor>" by (simp add: le_floor_iff)
  then show "n \<le> round_half_even x" by (auto simp: round_half_even_def Let_def)
next
  assume a: "x \<le> of_int n"
  show "round_half_even x \<le> n"
  proof (cases "x = of_int n")
    case True
    then show ?thesis by (simp add: round_half_even_def Let_def)
  next
    case False
    with a have "x < of_int n" by simp
    then have "\<lfloor>x\<rfloor> < n" by (simp add: floor_less_iff)
    then show ?thesis by (auto simp: round_half_even_def Let_def)
  qed
qed

lemma sci_digits_correct:
  assumes "0 < v" and "sci_digits v = (m, d)"
  shows "100 \<le> m \<and> m \<le> 999 \<and> \<bar>v - of_nat m * pow10 (d - 2)\<bar> \<le> pow10 (d - 2) / 2 \<and>
         pow10 d \<le> of_nat m * pow10 (d - 2) \<and> of_nat m * pow10 (d - 2) < pow10 (d + 1)"
proof -
  define e where "e = dec_exponent v"
  define u where "u = pow10 (e - 2)"
  define x where "x = v / u"
  define r where "r = round_half_even x"
  have upos: "0 < u" by (simp add: u_def pow10_powi)
  have p0: "pow10 e = 100 * u"
    by (simp add: u_def pow10_powi power_int_diff)
  have p1: "pow10 (e + 1) = 1000 * u"
    by (simp add: u_def pow10_powi power_int_diff power_int_add)
  have p2: "pow10 (e - 1) = 10 * u"
    by (simp add: u_def pow10_powi power_int_diff power_int_add)
  have p3: "pow10 (2 + e) = 10000 * u"
    by (simp add: u_def pow10_powi power_int_diff power_int_add)
  from dec_exponent_bounds [OF assms(1)] have "100 * u \<le> v" "v < 1000 * u"
    by (simp_all add: e_def [symmetric] p0 p1)
  with upos have x: "100 \<le> x" "x < 1000"
    by (simp_all add: x_def field_simps)
  have r: "100 \<le> r" "r \<le> 1000"
    using round_half_even_mono(1) [of 100 x] round_half_even_mono(2) [of x 1000] x
    by (simp_all add: r_def)
  have err: "\<bar>x - of_int r\<bar> \<le> 1 / 2"
    unfolding r_def by (rule round_half_even_error)
  have vx: "v = x * u" using upos by (simp add: x_def)
  have err_v: "\<bar>v - of_int r * u\<bar> \<le> u / 2"
  proof -
    have "v - of_int r * u = (x - of_int r) * u"
      by (simp add: vx left_diff_distrib)
    then have "\<bar>v - of_int r * u\<bar> = \<bar>x - of_int r\<bar> * \<bar>u\<bar>"
      by (simp only: abs_mult)
    also have "\<dots> = \<bar>x - of_int r\<bar> * u" using upos by simp
    also have "\<dots> \<le> (1 / 2) * u" using err upos by (intro mult_right_mono) simp_all
    finally show ?thesis by simp
  qed
  have sd: "sci_digits v = (if 1000 \<le> nat r then (100, e + 1) else (nat r, e))"
    by (simp add: sci_digits_def Let_def e_def r_def x_def u_def)
  show ?thesis
  proof (cases "1000 \<le> nat r")
    case True
    with r have r1000: "r = 1000" by simp
    from True sd assms(2) have md: "m = 100" "d = e + 1" by simp_all
    from err_v upos have "\<bar>v - 100 * (10 * u)\<bar> \<le> 10 * u / 2"
      by (simp add: r1000)
    with upos show ?thesis by (simp add: md p2 p3 p1)
  next
    case False
    with sd assms(2) have md: "m = nat r" "d = e" by simp_all
    from False r have rb: "100 \<le> r" "r \<le> 999" by simp_all
    then have m: "100 \<le> m" "m \<le> 999" "(of_nat m :: rat) = of_int r" by (simp_all add: md)
    have "(100::rat) \<le> of_int r" "(of_int r :: rat) \<le> 999" using rb by simp_all
    with upos have "100 * u \<le> of_int r * u" "of_int r * u < 1000 * u" by simp_all
    with m err_v show ?thesis by (simp add: md u_def [symmetric] p0 p1)
  qed
qed






end
